theory Spec2Isabelle
  imports Main "HOL-Library.Word"
begin

unbundle bit_operations_syntax

chapter \<open>The iDeal and iDIN client (package idx)\<close>

text \<open>
  The package builds signed XML requests of two bank protocols, the payment variant
  (\<open>IDealClient\<close>) and the identity variant (\<open>IDINClient\<close>), sends them and interprets
  the signed answers. Both clients embed \<open>CommonClient\<close>. The model follows the three
  source files function by function. What the package calls in libraries (element trees,
  signing, validation, decryption, SHA-1, HTTP, the clock) is either modelled from the
  library's documented behaviour (element trees, hexadecimal encoding, upper-casing,
  decimal printing) or taken as a parameter (the record \<open>World\<close> below).
\<close>

section \<open>Element trees (github.com/beevik/etree)\<close>

text \<open>
  The client builds and reads XML through the etree library. An element has a namespace
  prefix, a tag, a list of attributes and a list of child tokens; a token is an element,
  character data, or one of the other token kinds (comment, processing instruction,
  directive). A Go pointer to an element inside a tree is modelled by the tree's root
  together with the list of child indices leading from the root to the element; the root
  plays the role of the heap the pointer lives in, and following the parent pointers of
  the Go structure up to the top corresponds to the empty index list. The nil pointer is
  the \<open>None\<close> that \<open>FindElement\<close> returns, and calling a method on it is a panic
  branch of the client function that does so. The operations below are total: on an
  index list that leads to no element (the client never holds one) they leave the tree
  as it is.
\<close>

datatype Attr = Attr (ASpace: string) (Key: string) (Value: string)

datatype Token =
    Elem Element
  | CharData string
  | Comment string
  | ProcInst string string
  | Directive string
and Element = Element (Space: string) (Tag: string) (Attrs: "Attr list") (Child: "Token list")

type_synonym ptr = "nat list"

fun isCharData :: "Token \<Rightarrow> bool" where
  "isCharData (CharData _) = True"
| "isCharData _ = False"

fun isElem :: "Token \<Rightarrow> bool" where
  "isElem (Elem _) = True"
| "isElem _ = False"

fun charData :: "Token \<Rightarrow> string" where
  "charData (CharData s) = s"
| "charData _ = []"

text \<open>\<open>spaceDecompose\<close> splits \<open>prefix:name\<close> at the first colon.\<close>

definition spaceDecompose :: "string \<Rightarrow> string \<times> string" where
  "spaceDecompose str =
     (if CHR '':'' \<in> set str
      then (takeWhile (\<lambda>c. c \<noteq> CHR '':'') str, tl (dropWhile (\<lambda>c. c \<noteq> CHR '':'') str))
      else ([], str))"

definition spaceMatch :: "string \<Rightarrow> string \<Rightarrow> bool" where
  "spaceMatch a b = (if a = [] then True else a = b)"

text \<open>Dereferencing a pointer: the element at an index path, if the path is valid.\<close>

fun getAt :: "Element \<Rightarrow> ptr \<Rightarrow> Element option" where
  "getAt e [] = Some e"
| "getAt e (i # is) =
     (if i < length (Child e)
      then (case Child e ! i of Elem c \<Rightarrow> getAt c is | _ \<Rightarrow> None)
      else None)"

definition setChild :: "Element \<Rightarrow> Token list \<Rightarrow> Element" where
  "setChild e ts = Element (Space e) (Tag e) (Attrs e) ts"

definition setAttrs :: "Element \<Rightarrow> Attr list \<Rightarrow> Element" where
  "setAttrs e as = Element (Space e) (Tag e) as (Child e)"

text \<open>Mutating the element a pointer refers to, inside its tree.\<close>

fun modAt :: "(Element \<Rightarrow> Element) \<Rightarrow> Element \<Rightarrow> ptr \<Rightarrow> Element" where
  "modAt f e [] = f e"
| "modAt f e (i # is) =
     (if i < length (Child e)
      then (case Child e ! i of
              Elem c \<Rightarrow> setChild e ((Child e)[i := Elem (modAt f c is)])
            | _ \<Rightarrow> e)
      else e)"

text \<open>
  \<open>Text\<close>: the character data immediately following the opening tag (the leading run
  of character-data tokens, concatenated). \<open>SetText\<close> replaces that run by one token, or
  by none when the new text is empty.
\<close>

definition Text :: "Element \<Rightarrow> string" where
  "Text e = concat (map charData (takeWhile isCharData (Child e)))"

definition textTokens :: "string \<Rightarrow> Token list" where
  "textTokens text = (if text = [] then [] else [CharData text])"

definition replaceText :: "string \<Rightarrow> Element \<Rightarrow> Element" where
  "replaceText text e = setChild e (textTokens text @ dropWhile isCharData (Child e))"

definition SetText :: "Element \<Rightarrow> ptr \<Rightarrow> string \<Rightarrow> Element" where
  "SetText root p text = modAt (replaceText text) root p"

text \<open>\<open>CreateElement\<close> appends a new empty child and returns the pointer to it.\<close>

definition newChild :: "string \<Rightarrow> Element \<Rightarrow> Element" where
  "newChild tag e =
     (case spaceDecompose tag of
        (sp, t) \<Rightarrow> setChild e (Child e @ [Elem (Element sp t [] [])]))"

definition CreateElement :: "Element \<Rightarrow> ptr \<Rightarrow> string \<Rightarrow> Element \<times> ptr" where
  "CreateElement root p tag =
     (case getAt root p of
        None \<Rightarrow> (root, p)
      | Some e \<Rightarrow> (modAt (newChild tag) root p, p @ [length (Child e)]))"

text \<open>\<open>CreateAttr\<close> overwrites the value of an attribute with the same prefix and key, or
  appends a new attribute.\<close>

fun createAttr :: "string \<Rightarrow> string \<Rightarrow> string \<Rightarrow> Attr list \<Rightarrow> Attr list" where
  "createAttr sp k v [] = [Attr sp k v]"
| "createAttr sp k v (a # as) =
     (if sp = ASpace a \<and> k = Key a then Attr sp k v # as else a # createAttr sp k v as)"

definition CreateAttr :: "Element \<Rightarrow> ptr \<Rightarrow> string \<Rightarrow> string \<Rightarrow> Element" where
  "CreateAttr root p key v =
     (case spaceDecompose key of
        (sp, k) \<Rightarrow> modAt (\<lambda>e. setAttrs e (createAttr sp k v (Attrs e))) root p)"

fun selectAttr :: "string \<Rightarrow> string \<Rightarrow> string \<Rightarrow> Attr list \<Rightarrow> string" where
  "selectAttr sp k dflt [] = dflt"
| "selectAttr sp k dflt (a # as) =
     (if spaceMatch sp (ASpace a) \<and> k = Key a then Value a else selectAttr sp k dflt as)"

definition SelectAttrValue :: "Element \<Rightarrow> string \<Rightarrow> string \<Rightarrow> string" where
  "SelectAttrValue e key dflt =
     (case spaceDecompose key of (sp, k) \<Rightarrow> selectAttr sp k dflt (Attrs e))"

text \<open>\<open>ChildElements\<close>: the child tokens that are elements, as indices, in order.\<close>

fun elemIdx :: "Token list \<Rightarrow> nat \<Rightarrow> nat list" where
  "elemIdx [] i = []"
| "elemIdx (t # ts) i = (if isElem t then i # elemIdx ts (Suc i) else elemIdx ts (Suc i))"

definition ChildElements :: "Element \<Rightarrow> ptr \<Rightarrow> ptr list" where
  "ChildElements root p =
     (case getAt root p of
        None \<Rightarrow> []
      | Some e \<Rightarrow> map (\<lambda>i. p @ [i]) (elemIdx (Child e) 0))"

subsection \<open>Paths\<close>

text \<open>
  Every path this client uses is a sequence of tag names separated by \<open>/\<close>. A path
  with a leading \<open>/\<close> is absolute: its first selector is the library's \<open>selectRoot\<close>,
  which follows the parent pointers of the receiver up to the element that has no parent,
  so that the search starts at the root of the tree the receiver belongs to and selects
  the same elements whatever the receiver is. A path without it is relative: the search
  starts at the receiver. A tag segment selects the child elements with that tag, in
  order; a segment without a prefix matches any prefix. Each segment is applied to all
  elements the segments before it have selected, level by level, so that the matches come
  out in document order. The other selectors and the filters of the library's path
  language do not occur in the client and are not modelled.
\<close>

fun splitPath :: "string \<Rightarrow> string list" where
  "splitPath [] = [[]]"
| "splitPath (c # cs) =
     (if c = CHR ''/'' then [] # splitPath cs
      else (case splitPath cs of [] \<Rightarrow> [[c]] | w # ws \<Rightarrow> (c # w) # ws))"

definition compilePath :: "string \<Rightarrow> bool \<times> (string \<times> string) list" where
  "compilePath path =
     (case path of
        c # cs \<Rightarrow> (if c = CHR ''/'' then (True, map spaceDecompose (splitPath cs))
                   else (False, map spaceDecompose (splitPath path)))
      | [] \<Rightarrow> (False, map spaceDecompose (splitPath path)))"

fun tagIdx :: "string \<times> string \<Rightarrow> Token list \<Rightarrow> nat \<Rightarrow> nat list" where
  "tagIdx st [] i = []"
| "tagIdx st (t # ts) i =
     (case t of
        Elem c \<Rightarrow> (if spaceMatch (fst st) (Space c) \<and> snd st = Tag c
                   then i # tagIdx st ts (Suc i) else tagIdx st ts (Suc i))
      | _ \<Rightarrow> tagIdx st ts (Suc i))"

definition selectChildrenByTag :: "Element \<Rightarrow> string \<times> string \<Rightarrow> ptr \<Rightarrow> ptr list" where
  "selectChildrenByTag root st p =
     (case getAt root p of
        None \<Rightarrow> []
      | Some e \<Rightarrow> map (\<lambda>i. p @ [i]) (tagIdx st (Child e) 0))"

fun traverse :: "Element \<Rightarrow> ptr list \<Rightarrow> (string \<times> string) list \<Rightarrow> ptr list" where
  "traverse root ps [] = ps"
| "traverse root ps (st # sts) =
     traverse root (concat (map (selectChildrenByTag root st) ps)) sts"

definition FindElements :: "Element \<Rightarrow> ptr \<Rightarrow> string \<Rightarrow> ptr list" where
  "FindElements root p path =
     (case compilePath path of
        (absolute, segs) \<Rightarrow> traverse root [if absolute then [] else p] segs)"

text \<open>\<open>FindElement\<close> returns the first match, or nil (\<open>None\<close>).\<close>

definition FindElement :: "Element \<Rightarrow> ptr \<Rightarrow> string \<Rightarrow> ptr option" where
  "FindElement root p path =
     (case FindElements root p path of [] \<Rightarrow> None | q # _ \<Rightarrow> Some q)"

text \<open>
  \<open>InsertChild e ex t\<close> first removes \<open>t\<close> from its current parent and then inserts it
  before \<open>ex\<close> among the children of \<open>e\<close>, or at the end when \<open>ex\<close> is not a child of
  \<open>e\<close>. The client only calls it with \<open>t\<close> already a child of \<open>e\<close>; a \<open>t\<close> from
  elsewhere leaves the tree as it is in this model.
\<close>

definition childIndex :: "ptr \<Rightarrow> ptr \<Rightarrow> nat option" where
  "childIndex e x = (if x \<noteq> [] \<and> butlast x = e then Some (last x) else None)"

definition removeAt :: "nat \<Rightarrow> 'a list \<Rightarrow> 'a list" where
  "removeAt j xs = take j xs @ drop (Suc j) xs"

definition insertAt :: "nat \<Rightarrow> 'a \<Rightarrow> 'a list \<Rightarrow> 'a list" where
  "insertAt i x xs = take i xs @ x # drop i xs"

definition insertChildTokens :: "nat option \<Rightarrow> nat \<Rightarrow> Token list \<Rightarrow> Token list" where
  "insertChildTokens ex j ch =
     (if j < length ch
      then (let tok = ch ! j; ch' = removeAt j ch in
            (case ex of
               Some i \<Rightarrow> (if i \<noteq> j \<and> i < length ch
                          then insertAt (if i < j then i else i - 1) tok ch'
                          else ch' @ [tok])
             | None \<Rightarrow> ch' @ [tok]))
      else ch)"

definition InsertChild :: "Element \<Rightarrow> ptr \<Rightarrow> ptr \<Rightarrow> ptr \<Rightarrow> Element" where
  "InsertChild root e ex t =
     (case childIndex e t of
        None \<Rightarrow> root
      | Some j \<Rightarrow> modAt (\<lambda>el. setChild el (insertChildTokens (childIndex e ex) j (Child el))) root e)"

section \<open>The client\<close>

type_synonym byte = "8 word"

datatype TransactionStatus = InvalidStatus | Success | Cancelled | Expired | Failure | Open

fun String :: "TransactionStatus \<Rightarrow> string" where
  "String Success = ''Success''"
| "String Cancelled = ''Cancelled''"
| "String Expired = ''Expired''"
| "String Failure = ''Failure''"
| "String Open = ''Open''"
| "String InvalidStatus = ''InvalidStatus''"

record AcquirerError =
  ErrorCode :: string
  ErrorMessage :: string
  ErrorDetail :: string
  ConsumerMessage :: string

text \<open>
  What a call can end with instead of a result: a Go panic (nil dereference, index out of
  range, failed type assertion, \<open>panic(err)\<close>), or a returned error: one made with
  \<open>errors.New\<close>, the structured \<open>AcquirerError\<close>, or an error of a library
  (transport, parser, signature validation, decryption), kept by its message.
\<close>

datatype error =
    PanicNilPointer
  | PanicIndexOutOfRange
  | PanicTypeAssertion
  | PanicErr string
  | ErrorsNew string
  | AcquirerErr AcquirerError
  | LibError string

datatype PrivateKey = RSAPrivateKey "byte list" | OtherPrivateKey "byte list"

record tlsCertificate =
  CertificateDER :: "byte list list"
  PrivateKey :: PrivateKey

type_synonym x509Certificate = "byte list"

record CommonClient =
  BaseURL :: string
  MerchantID :: string
  SubID :: string
  ReturnURL :: string
  Certificate :: tlsCertificate
  AcquirerCert :: x509Certificate

record HttpResponse =
  StatusCode :: int
  Status :: string
  Body :: string

text \<open>
  The collaborators the client calls and does not implement: the clock, the XML signature
  library (sign, validate), SHA-1, the serializer and parser of element trees, the HTTP
  client and the XML decryption library. An \<open>Inl\<close> is the library's error.
  \<open>SignEnveloped\<close>, \<open>Validate\<close> and \<open>DecryptElement\<close> return a tree of their own (the
  root has no parent): the client applies absolute paths such as \<open>/Signature/KeyInfo\<close>
  and \<open>/Transaction/status\<close> to what they return, naming children of the returned
  element. \<open>ReadFrom\<close> returns the document, an element with an empty tag whose children
  are the document's top-level tokens. One call of the client reads the clock once and
  makes one exchange, so the collaborators are functions of their arguments here.
\<close>

record World =
  now :: string
  SignEnveloped :: "tlsCertificate \<Rightarrow> Element \<Rightarrow> string + Element"
  sha1_Sum :: "byte list \<Rightarrow> byte list"
  WriteToString :: "Element \<Rightarrow> string + string"
  NewRequest :: "string \<Rightarrow> string option"
  Do :: "string \<Rightarrow> string \<Rightarrow> string + HttpResponse"
  ReadFrom :: "string \<Rightarrow> string + Element"
  Validate :: "x509Certificate \<Rightarrow> Element \<Rightarrow> string + Element"
  DecryptElement :: "Element \<Rightarrow> byte list \<Rightarrow> string + Element"

subsection \<open>Building messages\<close>

definition CommonClient_createMessage :: "World \<Rightarrow> CommonClient \<Rightarrow> string \<Rightarrow> Element" where
  "CommonClient_createMessage w c tag =
     (let msg = Element [] tag [] [];
          (msg, ts) = CreateElement msg [] ''createDateTimestamp'';
          msg = SetText msg ts (now w);
          (msg, merchant) = CreateElement msg [] ''Merchant'';
          (msg, mid) = CreateElement msg merchant ''merchantID'';
          msg = SetText msg mid (MerchantID c);
          (msg, sid) = CreateElement msg merchant ''subID'';
          msg = SetText msg sid (SubID c)
      in msg)"

definition IDealClient_createMessage :: "World \<Rightarrow> CommonClient \<Rightarrow> string \<Rightarrow> Element" where
  "IDealClient_createMessage w c tag =
     (let msg = CommonClient_createMessage w c tag;
          msg = CreateAttr msg [] ''xmlns'' ''http://www.idealdesk.com/ideal/messages/mer-acq/3.3.1'';
          msg = CreateAttr msg [] ''version'' ''3.3.1''
      in msg)"

definition IDINClient_createMessage :: "World \<Rightarrow> CommonClient \<Rightarrow> string \<Rightarrow> Element" where
  "IDINClient_createMessage w c tag =
     (let msg = CommonClient_createMessage w c tag;
          msg = CreateAttr msg [] ''xmlns''
                  ''http://www.betaalvereniging.nl/iDx/messages/Merchant-Acquirer/1.0.0'';
          msg = CreateAttr msg [] ''version'' ''1.0.0'';
          msg = CreateAttr msg [] ''productID'' ''NL:BVN:BankID:1.0''
      in msg)"

record IDealTransaction =
  client :: CommonClient
  msg :: Element
  issuerAuthenticationURL :: string
  transactionID :: string

text \<open>
  \<open>NewTransaction\<close>, statement by statement. \<open>InsertChild\<close> moves the Issuer block, so
  the index lists \<open>merchantEl\<close> and \<open>issuerEl\<close> are stale after it; the source does not
  use these two pointers afterwards either.
\<close>

definition IDealClient_NewTransaction ::
  "World \<Rightarrow> CommonClient \<Rightarrow> string \<Rightarrow> string \<Rightarrow> string \<Rightarrow> string \<Rightarrow> string
     \<Rightarrow> error + IDealTransaction" where
  "IDealClient_NewTransaction w c issuer purchaseID amount description entranceCode =
     (let msg = IDealClient_createMessage w c ''AcquirerTrxReq'' in
      case FindElement msg [] ''/Merchant'' of
        None \<Rightarrow> Inl PanicNilPointer
      | Some merchantEl \<Rightarrow>
          (let (msg, r) = CreateElement msg merchantEl ''merchantReturnURL'';
               msg = SetText msg r (ReturnURL c);
               (msg, issuerEl) = CreateElement msg [] ''Issuer'';
               (msg, iid) = CreateElement msg issuerEl ''issuerID'';
               msg = SetText msg iid issuer;
               msg = InsertChild msg [] merchantEl issuerEl;
               (msg, transaction) = CreateElement msg [] ''Transaction'';
               (msg, e) = CreateElement msg transaction ''purchaseID'';
               msg = SetText msg e purchaseID;
               (msg, e) = CreateElement msg transaction ''amount'';
               msg = SetText msg e amount;
               (msg, e) = CreateElement msg transaction ''currency'';
               msg = SetText msg e ''EUR'';
               (msg, e) = CreateElement msg transaction ''language'';
               msg = SetText msg e ''nl'';
               (msg, e) = CreateElement msg transaction ''description'';
               msg = SetText msg e description;
               (msg, e) = CreateElement msg transaction ''entranceCode'';
               msg = SetText msg e entranceCode
           in Inr \<lparr>client = c, msg = msg, issuerAuthenticationURL = [], transactionID = []\<rparr>))"

text \<open>\<open>strconv.Itoa\<close>: the decimal digits of an integer, with a minus sign when negative.\<close>

definition digitChar :: "nat \<Rightarrow> char" where
  "digitChar n = ''0123456789'' ! n"

function natToDec :: "nat \<Rightarrow> string" where
  "natToDec n = (if n < 10 then [digitChar n] else natToDec (n div 10) @ [digitChar (n mod 10)])"
  by pat_completeness auto
termination
  by (relation "measure id") auto

definition Itoa :: "int \<Rightarrow> string" where
  "Itoa i = (if i < 0 then CHR ''-'' # natToDec (nat (- i)) else natToDec (nat i))"

text \<open>The bitmask of requested attributes is a Go \<open>int\<close>, 64 bits wide.\<close>

type_synonym IDINAttribute = "64 word"

definition IDINServiceIDBIN :: IDINAttribute where "IDINServiceIDBIN = push_bit 14 1"
definition IDINServiceIDName :: IDINAttribute where "IDINServiceIDName = push_bit 12 1"
definition IDINServiceIDAddress :: IDINAttribute where "IDINServiceIDAddress = push_bit 10 1"
definition IDINServiceIDDateOfBirth :: IDINAttribute where "IDINServiceIDDateOfBirth = push_bit 6 7"
definition IDINServiceIDGender :: IDINAttribute where "IDINServiceIDGender = push_bit 4 1"
definition IDINServiceIDTelephone :: IDINAttribute where "IDINServiceIDTelephone = push_bit 2 1"
definition IDINServiceIDEmail :: IDINAttribute where "IDINServiceIDEmail = push_bit 1 1"

text \<open>\<open>x.FindElement(path).Text()\<close>: a nil result of \<open>FindElement\<close> makes \<open>Text\<close> panic.\<close>

definition FindText :: "Element \<Rightarrow> ptr \<Rightarrow> string \<Rightarrow> error + string" where
  "FindText root p path =
     (case FindElement root p path of
        None \<Rightarrow> Inl PanicNilPointer
      | Some q \<Rightarrow> (case getAt root q of None \<Rightarrow> Inl PanicNilPointer | Some e \<Rightarrow> Inr (Text e)))"

record IDINTransaction =
  client :: CommonClient
  msg :: Element
  issuerAuthenticationURL :: string
  transactionID :: string

definition IDINClient_NewTransaction ::
  "World \<Rightarrow> CommonClient \<Rightarrow> string \<Rightarrow> string \<Rightarrow> string \<Rightarrow> IDINAttribute
     \<Rightarrow> error + IDINTransaction" where
  "IDINClient_NewTransaction w c issuer entranceCode ident attributes =
     (let msg = IDINClient_createMessage w c ''AcquirerTrxReq'' in
      case FindElement msg [] ''/Merchant'' of
        None \<Rightarrow> Inl PanicNilPointer
      | Some merchantEl \<Rightarrow>
          (let (msg, r) = CreateElement msg merchantEl ''merchantReturnURL'';
               msg = SetText msg r (ReturnURL c);
               (msg, issuerEl) = CreateElement msg [] ''Issuer'';
               (msg, iid) = CreateElement msg issuerEl ''issuerID'';
               msg = SetText msg iid issuer;
               msg = InsertChild msg [] merchantEl issuerEl;
               (msg, transaction) = CreateElement msg [] ''Transaction'';
               (msg, e) = CreateElement msg transaction ''language'';
               msg = SetText msg e ''nl'';
               (msg, e) = CreateElement msg transaction ''entranceCode'';
               msg = SetText msg e entranceCode;
               (msg, container) = CreateElement msg transaction ''container'';
               (msg, samlAuthRequest) = CreateElement msg container ''samlp:AuthnRequest'';
               msg = CreateAttr msg samlAuthRequest ''xmlns:samlp''
                       ''urn:oasis:names:tc:SAML:2.0:protocol'';
               msg = CreateAttr msg samlAuthRequest ''xmlns:saml''
                       ''urn:oasis:names:tc:SAML:2.0:assertion'';
               msg = CreateAttr msg samlAuthRequest ''ID'' ident;
               msg = CreateAttr msg samlAuthRequest ''Version'' ''2.0''
           in case FindText msg [] ''/createDateTimestamp'' of
                Inl err \<Rightarrow> Inl err
              | Inr instant \<Rightarrow>
                  (let msg = CreateAttr msg samlAuthRequest ''IssueInstant'' instant;
                       msg = CreateAttr msg samlAuthRequest ''ProtocolBinding''
                               ''nl:bvn:bankid:1.0:protocol:iDx'';
                       msg = CreateAttr msg samlAuthRequest ''AssertionConsumerServiceURL''
                               (ReturnURL c);
                       msg = CreateAttr msg samlAuthRequest ''AttributeConsumingServiceIndex''
                               (Itoa (sint attributes));
                       (msg, e) = CreateElement msg samlAuthRequest ''saml:Issuer'';
                       msg = SetText msg e (MerchantID c);
                       (msg, context) = CreateElement msg samlAuthRequest
                                          ''samlp:RequestedAuthnContext'';
                       msg = CreateAttr msg context ''Comparison'' ''minimum'';
                       (msg, e) = CreateElement msg context ''saml:AuthnContextClassRef'';
                       msg = SetText msg e ''nl:bvn:bankid:1.0:loa3''
                   in Inr \<lparr>client = c, msg = msg, issuerAuthenticationURL = [],
                            transactionID = []\<rparr>)))"

subsection \<open>Transport and error envelopes\<close>

definition CommonClient_request :: "World \<Rightarrow> CommonClient \<Rightarrow> string \<Rightarrow> error + Element" where
  "CommonClient_request w c message =
     (case NewRequest w (BaseURL c) of
        Some err \<Rightarrow> Inl (LibError err)
      | None \<Rightarrow>
          (case Do w (BaseURL c) message of
             Inl err \<Rightarrow> Inl (LibError err)
           | Inr resp \<Rightarrow>
               (if StatusCode resp \<noteq> 200
                then Inl (ErrorsNew (''idx: HTTP error: '' @ Status resp))
                else (case ReadFrom w (Body resp) of
                        Inl err \<Rightarrow> Inl (LibError err)
                      | Inr doc \<Rightarrow> Inr doc))))"

text \<open>
  The error envelope is read off the document as received, by the tag of its first child
  element. The four fields are read in the order of the struct literal; a missing one
  makes \<open>Text\<close> panic on nil.
\<close>

definition acquirerError :: "Element \<Rightarrow> error + AcquirerError" where
  "acquirerError doc =
     (case FindText doc [] ''/AcquirerErrorRes/Error/errorCode'' of
        Inl err \<Rightarrow> Inl err
      | Inr code \<Rightarrow>
     (case FindText doc [] ''/AcquirerErrorRes/Error/errorMessage'' of
        Inl err \<Rightarrow> Inl err
      | Inr message \<Rightarrow>
     (case FindText doc [] ''/AcquirerErrorRes/Error/errorDetail'' of
        Inl err \<Rightarrow> Inl err
      | Inr detail \<Rightarrow>
     (case FindText doc [] ''/AcquirerErrorRes/Error/consumerMessage'' of
        Inl err \<Rightarrow> Inl err
      | Inr consumer \<Rightarrow>
          Inr \<lparr>ErrorCode = code, ErrorMessage = message, ErrorDetail = detail,
               ConsumerMessage = consumer\<rparr>))))"

definition envelopeCheck :: "error + Element \<Rightarrow> error + Element" where
  "envelopeCheck r =
     (case r of
        Inl err \<Rightarrow> Inl err
      | Inr doc \<Rightarrow>
          (case ChildElements doc [] of
             [] \<Rightarrow> Inl PanicIndexOutOfRange
           | p # _ \<Rightarrow>
               (case getAt doc p of
                  None \<Rightarrow> Inl PanicNilPointer
                | Some first \<Rightarrow>
                    (if Tag first = ''AcquirerErrorRes''
                     then (case acquirerError doc of
                             Inl err \<Rightarrow> Inl err
                           | Inr ae \<Rightarrow> Inl (AcquirerErr ae))
                     else Inr doc))))"

definition IDealClient_request :: "World \<Rightarrow> CommonClient \<Rightarrow> string \<Rightarrow> error + Element" where
  "IDealClient_request w c message = envelopeCheck (CommonClient_request w c message)"

definition IDINClient_request :: "World \<Rightarrow> CommonClient \<Rightarrow> string \<Rightarrow> error + Element" where
  "IDINClient_request w c message = envelopeCheck (CommonClient_request w c message)"

subsection \<open>Signing and validating\<close>

definition hextable :: string where
  "hextable = ''0123456789abcdef''"

definition EncodeToString :: "byte list \<Rightarrow> string" where
  "EncodeToString bs =
     concat (map (\<lambda>v. [hextable ! unat (drop_bit 4 v), hextable ! unat (v AND 0x0f)]) bs)"

text \<open>\<open>strings.ToUpper\<close>, on the ASCII letters (all a hexadecimal string has).\<close>

definition toUpperChar :: "char \<Rightarrow> char" where
  "toUpperChar ch =
     (case map_of (zip ''abcdefghijklmnopqrstuvwxyz'' ''ABCDEFGHIJKLMNOPQRSTUVWXYZ'') ch of
        None \<Rightarrow> ch
      | Some u \<Rightarrow> u)"

definition ToUpper :: "string \<Rightarrow> string" where
  "ToUpper str = map toUpperChar str"

definition xml_Header :: string where
  \<open>xml_Header = ''<?xml version="1.0" encoding="UTF-8"?>'' @ [CHR 0x0A]\<close>

text \<open>
  \<open>RemoveChild\<close> removes the first child token that is the given one. The loop of
  \<open>signMessage\<close> hands it the child elements of \<open>KeyInfo\<close> one after the other, in
  order, so that the token it looks for is each time the first element left.
\<close>

definition RemoveChild :: "Element \<Rightarrow> ptr \<Rightarrow> Token \<Rightarrow> Element" where
  "RemoveChild root e t = modAt (\<lambda>el. setChild el (remove1 t (Child el))) root e"

definition childElementTokens :: "Element \<Rightarrow> ptr \<Rightarrow> Token list" where
  "childElementTokens root p =
     (case getAt root p of None \<Rightarrow> [] | Some e \<Rightarrow> filter isElem (Child e))"

text \<open>The tree \<open>signMessage\<close> serializes: the signed message with its \<open>KeyInfo\<close> rewritten.\<close>

definition signMessage_tree :: "World \<Rightarrow> CommonClient \<Rightarrow> Element \<Rightarrow> error + Element" where
  "signMessage_tree w c message =
     (case SignEnveloped w (Certificate c) message of
        Inl err \<Rightarrow> Inl (PanicErr err)
      | Inr signedEl \<Rightarrow>
          (case CertificateDER (Certificate c) of
             [] \<Rightarrow> Inl PanicIndexOutOfRange
           | der # _ \<Rightarrow>
               (let keyNameString = ToUpper (EncodeToString (sha1_Sum w der)) in
                case FindElement signedEl [] ''/Signature/KeyInfo'' of
                  None \<Rightarrow> Inl PanicNilPointer
                | Some keyInfo \<Rightarrow>
                    (let signedEl = fold (\<lambda>child s. RemoveChild s keyInfo child)
                                    (childElementTokens signedEl keyInfo) signedEl;
                         (signedEl, keyName) = CreateElement signedEl keyInfo ''KeyName'';
                         signedEl = SetText signedEl keyName keyNameString
                     in Inr signedEl))))"

definition signMessage :: "World \<Rightarrow> CommonClient \<Rightarrow> Element \<Rightarrow> error + string" where
  "signMessage w c message =
     (case signMessage_tree w c message of
        Inl err \<Rightarrow> Inl err
      | Inr signedEl \<Rightarrow>
          (case WriteToString w signedEl of
             Inl err \<Rightarrow> Inl (PanicErr err)
           | Inr str \<Rightarrow> Inr (xml_Header @ str)))"

definition validateMessage :: "World \<Rightarrow> CommonClient \<Rightarrow> Element \<Rightarrow> error + Element" where
  "validateMessage w c doc =
     (case ChildElements doc [] of
        [] \<Rightarrow> Inl PanicIndexOutOfRange
      | p # _ \<Rightarrow>
          (case getAt doc p of
             None \<Rightarrow> Inl PanicNilPointer
           | Some first \<Rightarrow>
               (case Validate w (AcquirerCert c) first of
                  Inl err \<Rightarrow> Inl (LibError err)
                | Inr response \<Rightarrow> Inr response)))"

text \<open>Sign, send, look for an error envelope, validate: the exchange every call starts with.\<close>

definition IDealClient_exchange :: "World \<Rightarrow> CommonClient \<Rightarrow> Element \<Rightarrow> error + Element" where
  "IDealClient_exchange w c message =
     (case signMessage w c message of
        Inl err \<Rightarrow> Inl err
      | Inr signedEl \<Rightarrow>
          (case IDealClient_request w c signedEl of
             Inl err \<Rightarrow> Inl err
           | Inr doc \<Rightarrow> validateMessage w c doc))"

definition IDINClient_exchange :: "World \<Rightarrow> CommonClient \<Rightarrow> Element \<Rightarrow> error + Element" where
  "IDINClient_exchange w c message =
     (case signMessage w c message of
        Inl err \<Rightarrow> Inl err
      | Inr signedEl \<Rightarrow>
          (case IDINClient_request w c signedEl of
             Inl err \<Rightarrow> Inl err
           | Inr doc \<Rightarrow> validateMessage w c doc))"

subsection \<open>The directory\<close>

record Issuer =
  IssuerID :: string
  IssuerName :: string

record Directory =
  Issuers :: "string \<rightharpoonup> Issuer list"

definition appendIssuer :: "Directory \<Rightarrow> string \<Rightarrow> Issuer \<Rightarrow> Directory" where
  "appendIssuer d country i =
     d\<lparr>Issuers := (Issuers d)(country \<mapsto>
          (case Issuers d country of None \<Rightarrow> [] | Some l \<Rightarrow> l) @ [i])\<rparr>"

fun issuerLoop :: "Element \<Rightarrow> string \<Rightarrow> ptr list \<Rightarrow> Directory \<Rightarrow> error + Directory" where
  "issuerLoop m countryName [] d = Inr d"
| "issuerLoop m countryName (issuerEl # rest) d =
     (case FindText m issuerEl ''/Directory/Country/Issuer/issuerID'' of
        Inl err \<Rightarrow> Inl err
      | Inr issuerID \<Rightarrow>
          (case FindText m issuerEl ''/Directory/Country/Issuer/issuerName'' of
             Inl err \<Rightarrow> Inl err
           | Inr issuerName \<Rightarrow>
               issuerLoop m countryName rest
                 (appendIssuer d countryName \<lparr>IssuerID = issuerID, IssuerName = issuerName\<rparr>)))"

fun countryLoop :: "Element \<Rightarrow> ptr list \<Rightarrow> Directory \<Rightarrow> error + Directory" where
  "countryLoop m [] d = Inr d"
| "countryLoop m (countryEl # rest) d =
     (case FindText m countryEl ''/Directory/Country/countryNames'' of
        Inl err \<Rightarrow> Inl err
      | Inr countryName \<Rightarrow>
          (case issuerLoop m countryName
                  (FindElements m countryEl ''/Directory/Country/Issuer'') d of
             Inl err \<Rightarrow> Inl err
           | Inr d' \<Rightarrow> countryLoop m rest d'))"

definition parseDirectoryRequest :: "Element \<Rightarrow> error + Directory" where
  "parseDirectoryRequest m =
     countryLoop m (FindElements m [] ''/Directory/Country'') \<lparr>Issuers = Map.empty\<rparr>"

definition IDealClient_DirectoryRequest :: "World \<Rightarrow> CommonClient \<Rightarrow> error + Directory" where
  "IDealClient_DirectoryRequest w c =
     (case IDealClient_exchange w c (IDealClient_createMessage w c ''DirectoryReq'') of
        Inl err \<Rightarrow> Inl err
      | Inr response \<Rightarrow> parseDirectoryRequest response)"

definition IDINClient_DirectoryRequest :: "World \<Rightarrow> CommonClient \<Rightarrow> error + Directory" where
  "IDINClient_DirectoryRequest w c =
     (case IDINClient_exchange w c (IDINClient_createMessage w c ''DirectoryReq'') of
        Inl err \<Rightarrow> Inl err
      | Inr response \<Rightarrow> parseDirectoryRequest response)"

subsection \<open>Transaction status\<close>

record IDealTransactionStatus =
  Status :: TransactionStatus
  ConsumerName :: string
  ConsumerIBAN :: string
  ConsumerBIC :: string
  Amount :: string
  Currency :: string

definition statusRequest :: "Element \<Rightarrow> string \<Rightarrow> Element" where
  "statusRequest message trxid =
     (let (message, transaction) = CreateElement message [] ''Transaction'';
          (message, e) = CreateElement message transaction ''transactionID'';
          message = SetText message e trxid
      in message)"

definition idealStatus :: "string \<Rightarrow> TransactionStatus" where
  "idealStatus statusString =
     (if statusString = ''Success'' then Success
      else if statusString = ''Cancelled'' then Cancelled
      else if statusString = ''Expired'' then Expired
      else if statusString = ''Failure'' then Failure
      else if statusString = ''Open'' then Open
      else InvalidStatus)"

text \<open>What \<open>TransactionStatus\<close> does with the validated response.\<close>

definition IDealClient_interpretStatus :: "Element \<Rightarrow> string \<Rightarrow> error + IDealTransactionStatus" where
  "IDealClient_interpretStatus response trxid =
     (case FindText response [] ''/Transaction/transactionID'' of
        Inl err \<Rightarrow> Inl err
      | Inr echoed \<Rightarrow>
          (if echoed \<noteq> trxid
           then Inl (ErrorsNew ''idx: returned transaction ID does not match'')
           else (case FindText response [] ''/Transaction/status'' of
                   Inl err \<Rightarrow> Inl err
                 | Inr statusString \<Rightarrow>
                     (let status = idealStatus statusString in
                      if status = InvalidStatus
                      then Inl (ErrorsNew (''ideal: invalid status: '' @ statusString))
                      else if status = Success
                      then
                     (case FindText response [] ''/Transaction/consumerName'' of
                        Inl err \<Rightarrow> Inl err
                      | Inr name \<Rightarrow>
                     (case FindText response [] ''/Transaction/consumerIBAN'' of
                        Inl err \<Rightarrow> Inl err
                      | Inr iban \<Rightarrow>
                     (case FindText response [] ''/Transaction/consumerBIC'' of
                        Inl err \<Rightarrow> Inl err
                      | Inr bic \<Rightarrow>
                     (case FindText response [] ''/Transaction/amount'' of
                        Inl err \<Rightarrow> Inl err
                      | Inr amount \<Rightarrow>
                     (case FindText response [] ''/Transaction/currency'' of
                        Inl err \<Rightarrow> Inl err
                      | Inr currency \<Rightarrow>
                          Inr \<lparr>Status = status, ConsumerName = name, ConsumerIBAN = iban,
                               ConsumerBIC = bic, Amount = amount, Currency = currency\<rparr>)))))
                      else Inr \<lparr>Status = status, ConsumerName = [], ConsumerIBAN = [],
                                ConsumerBIC = [], Amount = [], Currency = []\<rparr>))))"

definition IDealClient_TransactionStatus ::
  "World \<Rightarrow> CommonClient \<Rightarrow> string \<Rightarrow> error + IDealTransactionStatus" where
  "IDealClient_TransactionStatus w c trxid =
     (case IDealClient_exchange w c
             (statusRequest (IDealClient_createMessage w c ''AcquirerStatusReq'') trxid) of
        Inl err \<Rightarrow> Inl err
      | Inr response \<Rightarrow> IDealClient_interpretStatus response trxid)"

record IDINTransactionStatus =
  Status :: TransactionStatus
  Attributes :: "(string \<rightharpoonup> string) option"





section \<open>Vocabulary of the properties\<close>

text \<open>The texts, and the values of one attribute, of all elements an absolute path selects.\<close>

definition textsAt :: "Element \<Rightarrow> string \<Rightarrow> string list" where
  "textsAt root path =
     map (\<lambda>p. case getAt root p of None \<Rightarrow> [] | Some e \<Rightarrow> Text e) (FindElements root [] path)"

definition attrsAt :: "Element \<Rightarrow> string \<Rightarrow> string \<Rightarrow> string list" where
  "attrsAt root path key =
     map (\<lambda>p. case getAt root p of None \<Rightarrow> [] | Some e \<Rightarrow> SelectAttrValue e key [])
       (FindElements root [] path)"

text \<open>The tags of the child elements of an element, in order.\<close>

fun tokenTags :: "Token list \<Rightarrow> string list" where
  "tokenTags [] = []"
| "tokenTags (Elem e # ts) = Tag e # tokenTags ts"
| "tokenTags (_ # ts) = tokenTags ts"

definition childTags :: "Element \<Rightarrow> string list" where
  "childTags e = tokenTags (Child e)"

text \<open>An element without prefix and attributes that holds one text.\<close>

definition leaf :: "string \<Rightarrow> string \<Rightarrow> Token" where
  "leaf t s = Elem (Element [] t [] (textTokens s))"

text \<open>The messages \<open>NewTransaction\<close> builds, written out.\<close>

definition idealTrxTree ::
  "string \<Rightarrow> string \<Rightarrow> string \<Rightarrow> string \<Rightarrow> string \<Rightarrow> string \<Rightarrow> string \<Rightarrow> string \<Rightarrow> string
     \<Rightarrow> Element" where
  "idealTrxTree ts mid sid ret issuer purchaseID amount description entranceCode =
     Element [] ''AcquirerTrxReq''
       [Attr [] ''xmlns'' ''http://www.idealdesk.com/ideal/messages/mer-acq/3.3.1'',
        Attr [] ''version'' ''3.3.1'']
       [leaf ''createDateTimestamp'' ts,
        Elem (Element [] ''Issuer'' [] [leaf ''issuerID'' issuer]),
        Elem (Element [] ''Merchant'' []
                [leaf ''merchantID'' mid, leaf ''subID'' sid, leaf ''merchantReturnURL'' ret]),
        Elem (Element [] ''Transaction'' []
                [leaf ''purchaseID'' purchaseID, leaf ''amount'' amount,
                 leaf ''currency'' ''EUR'', leaf ''language'' ''nl'',
                 leaf ''description'' description, leaf ''entranceCode'' entranceCode])]"

definition idinTrxTree ::
  "string \<Rightarrow> string \<Rightarrow> string \<Rightarrow> string \<Rightarrow> string \<Rightarrow> string \<Rightarrow> string \<Rightarrow> string \<Rightarrow> Element" where
  "idinTrxTree ts mid sid ret issuer entranceCode ident index =
     Element [] ''AcquirerTrxReq''
       [Attr [] ''xmlns'' ''http://www.betaalvereniging.nl/iDx/messages/Merchant-Acquirer/1.0.0'',
        Attr [] ''version'' ''1.0.0'',
        Attr [] ''productID'' ''NL:BVN:BankID:1.0'']
       [leaf ''createDateTimestamp'' ts,
        Elem (Element [] ''Issuer'' [] [leaf ''issuerID'' issuer]),
        Elem (Element [] ''Merchant'' []
                [leaf ''merchantID'' mid, leaf ''subID'' sid, leaf ''merchantReturnURL'' ret]),
        Elem (Element [] ''Transaction'' []
                [leaf ''language'' ''nl'', leaf ''entranceCode'' entranceCode,
                 Elem (Element [] ''container'' []
                   [Elem (Element ''samlp'' ''AuthnRequest''
                      [Attr ''xmlns'' ''samlp'' ''urn:oasis:names:tc:SAML:2.0:protocol'',
                       Attr ''xmlns'' ''saml'' ''urn:oasis:names:tc:SAML:2.0:assertion'',
                       Attr [] ''ID'' ident,
                       Attr [] ''Version'' ''2.0'',
                       Attr [] ''IssueInstant'' ts,
                       Attr [] ''ProtocolBinding'' ''nl:bvn:bankid:1.0:protocol:iDx'',
                       Attr [] ''AssertionConsumerServiceURL'' ret,
                       Attr [] ''AttributeConsumingServiceIndex'' index]
                      [Elem (Element ''saml'' ''Issuer'' [] (textTokens mid)),
                       Elem (Element ''samlp'' ''RequestedAuthnContext''
                          [Attr [] ''Comparison'' ''minimum'']
                          [Elem (Element ''saml'' ''AuthnContextClassRef'' []
                             (textTokens ''nl:bvn:bankid:1.0:loa3''))])])])])]"

text \<open>A client and collaborators to run the calls on.\<close>

definition exampleClient :: CommonClient where
  "exampleClient =
     \<lparr>BaseURL = ''https://bank.example/ideal'', MerchantID = ''002012345'', SubID = ''0'',
      ReturnURL = ''https://shop.example/return'',
      Certificate = \<lparr>CertificateDER = [[0xAB, 0x01]], PrivateKey = RSAPrivateKey [1]\<rparr>,
      AcquirerCert = [2]\<rparr>"

definition offlineWorld :: World where
  "offlineWorld =
     \<lparr>now = ''2020-01-01T00:00:00Z'',
      SignEnveloped = (\<lambda>cert e. Inl ''no key''),
      sha1_Sum = (\<lambda>b. b),
      WriteToString = (\<lambda>e. Inr []),
      NewRequest = (\<lambda>u. None),
      Do = (\<lambda>u b. Inl ''no network''),
      ReadFrom = (\<lambda>s. Inl ''no document''),
      Validate = (\<lambda>cert e. Inl ''no signature''),
      DecryptElement = (\<lambda>e k. Inl ''no key'')\<rparr>"

text \<open>
  Concrete collaborators for running whole calls: a signer that returns a fixed signed
  tree, a transport that answers 200 with a given document, a validator that accepts and
  returns a given tree, and a given decryption function. The status responses of the
  payment variant and of the identity variant follow, the latter validated as a
  document (so that its paths, which start at \<open>AcquirerStatusRes\<close>, resolve).
\<close>

definition textEl :: "string \<Rightarrow> string \<Rightarrow> Token" where
  "textEl t s = Elem (Element [] t [] [CharData s])"

definition node :: "string \<Rightarrow> Token list \<Rightarrow> Token" where
  "node t ch = Elem (Element [] t [] ch)"

definition signedStub :: Element where
  "signedStub =
     Element [] ''AcquirerStatusReq'' []
       [node ''Signature'' [textEl ''SignatureValue'' ''c2ln'',
          node ''KeyInfo'' [node ''X509Data'' [textEl ''X509Certificate'' ''MIIB'']]]]"

definition bankWorld ::
  "Element \<Rightarrow> Element \<Rightarrow> (Element \<Rightarrow> byte list \<Rightarrow> string + Element) \<Rightarrow> World" where
  "bankWorld doc validated decrypt =
     \<lparr>now = ''2020-01-01T00:00:00Z'',
      SignEnveloped = (\<lambda>cert e. Inr signedStub),
      sha1_Sum = (\<lambda>b. []),
      WriteToString = (\<lambda>e. Inr ''<signed/>''),
      NewRequest = (\<lambda>u. None),
      Do = (\<lambda>u b. Inr \<lparr>StatusCode = 200, Status = ''200 OK'', Body = ''<response/>''\<rparr>),
      ReadFrom = (\<lambda>s. Inr doc),
      Validate = (\<lambda>cert e. Inr validated),
      DecryptElement = decrypt\<rparr>"

definition document :: "Element \<Rightarrow> Element" where
  "document r = Element [] [] [] [Elem r]"

definition statusRes :: "string \<Rightarrow> string \<Rightarrow> Element" where
  "statusRes tid st = Element [] ''AcquirerStatusRes'' []
     [textEl ''createDateTimestamp'' ''2020-01-01T00:00:01Z'',
      node ''Acquirer'' [textEl ''acquirerID'' ''0001''],
      node ''Transaction'' [textEl ''transactionID'' tid, textEl ''status'' st,
        textEl ''statusDateTimestamp'' ''2020-01-01T00:00:01Z'',
        textEl ''consumerName'' ''J. Jansen'', textEl ''consumerIBAN'' ''NL44RABO0123456789'',
        textEl ''consumerBIC'' ''RABONL2U'',
        textEl ''amount'' ''1.00'', textEl ''currency'' ''EUR'']]"

definition noDecrypt :: "Element \<Rightarrow> byte list \<Rightarrow> string + Element" where
  "noDecrypt e k = Inl ''xmlenc: cannot decrypt''"

definition idealWorld :: "string \<Rightarrow> string \<Rightarrow> World" where
  "idealWorld tid st =
     bankWorld (document (statusRes tid st)) (statusRes tid st) noDecrypt"



text \<open>
  An error envelope as in the protocol's documentation, and an identity-variant Success
  response with two encrypted attributes of which the first only can be decrypted.
\<close>

definition errorRes :: Element where
  "errorRes =
     Element [] ''AcquirerErrorRes'' []
       [textEl ''createDateTimestamp'' ''2020-01-01T00:00:01Z'',
        node ''Error''
          [textEl ''errorCode'' ''SO1000'', textEl ''errorMessage'' ''System error'',
           textEl ''errorDetail'' ''...'', textEl ''consumerMessage'' ''Something went wrong'']]"

definition errorWorld :: World where
  "errorWorld = bankWorld (document errorRes) errorRes noDecrypt"







text \<open>A directory response with two countries, three issuers in all.\<close>

definition directoryRes :: Element where
  "directoryRes =
     Element [] ''DirectoryRes'' []
       [textEl ''createDateTimestamp'' ''2020-01-01T00:00:01Z'',
        node ''Acquirer'' [textEl ''acquirerID'' ''0001''],
        node ''Directory''
          [textEl ''directoryDateTimestamp'' ''2020-01-01T00:00:00Z'',
           node ''Country''
             [textEl ''countryNames'' ''Netherlands'',
              node ''Issuer'' [textEl ''issuerID'' ''INGBNL2A'', textEl ''issuerName'' ''ING''],
              node ''Issuer'' [textEl ''issuerID'' ''RABONL2U'', textEl ''issuerName'' ''Rabobank'']],
           node ''Country''
             [textEl ''countryNames'' ''Belgium'',
              node ''Issuer'' [textEl ''issuerID'' ''GEBABEBB'', textEl ''issuerName'' ''BNP'']]]]"

section \<open>Properties\<close>

subsection \<open>The messages built\<close>

lemmas etree_defs =
  CreateElement_def SetText_def CreateAttr_def FindElement_def FindElements_def compilePath_def
  selectChildrenByTag_def spaceDecompose_def spaceMatch_def newChild_def setChild_def
  setAttrs_def replaceText_def InsertChild_def childIndex_def insertChildTokens_def
  removeAt_def insertAt_def Let_def FindText_def

lemmas find_defs =
  FindElements_def compilePath_def selectChildrenByTag_def spaceDecompose_def spaceMatch_def

lemma Text_textTokens: "Text (Element sp t as (textTokens s)) = s"
  by (simp add: Text_def textTokens_def)

lemma CommonClient_createMessage_tree:
  "CommonClient_createMessage w c tag =
     Element [] tag []
       [leaf ''createDateTimestamp'' (now w),
        Elem (Element [] ''Merchant'' []
                [leaf ''merchantID'' (MerchantID c), leaf ''subID'' (SubID c)])]"
  by (simp add: CommonClient_createMessage_def etree_defs leaf_def)

lemma IDealClient_NewTransaction_tree:
  "IDealClient_NewTransaction w c issuer purchaseID amount description entranceCode =
     Inr (IDealTransaction.make c
            (idealTrxTree (now w) (MerchantID c) (SubID c) (ReturnURL c) issuer purchaseID amount
               description entranceCode) [] [])"
  by (simp add: IDealClient_NewTransaction_def IDealClient_createMessage_def
        CommonClient_createMessage_tree etree_defs leaf_def idealTrxTree_def
        IDealTransaction.make_def)

lemma IDINClient_NewTransaction_tree:
  "IDINClient_NewTransaction w c issuer entranceCode ident attributes =
     Inr \<lparr>client = c,
          msg = idinTrxTree (now w) (MerchantID c) (SubID c) (ReturnURL c) issuer entranceCode
                  ident (Itoa (sint attributes)),
          issuerAuthenticationURL = [], transactionID = []\<rparr>"
  by (simp add: IDINClient_NewTransaction_def IDINClient_createMessage_def
        CommonClient_createMessage_tree etree_defs leaf_def idinTrxTree_def Text_textTokens)

text \<open>
  C10. Whatever the issuer, purchase identifier, amount, description and entrance code,
  the payment variant's \<open>NewTransaction\<close> returns a transaction whose message has one
  \<open>Transaction\<close> block, with exactly one \<open>currency\<close> element, of text \<open>EUR\<close>, and exactly
  one \<open>language\<close> element, of text \<open>nl\<close>: no argument selects another currency or language.
\<close>

theorem IDeal_NewTransaction_currency_language:
  "\<exists>t. IDealClient_NewTransaction w c issuer purchaseID amount description entranceCode = Inr t
     \<and> length (FindElements (IDealTransaction.msg t) [] ''/Transaction'') = 1
     \<and> textsAt (IDealTransaction.msg t) ''/Transaction/currency'' = [''EUR'']
     \<and> textsAt (IDealTransaction.msg t) ''/Transaction/language'' = [''nl'']"
  by (simp add: IDealClient_NewTransaction_tree IDealTransaction.make_def idealTrxTree_def
        textsAt_def find_defs leaf_def Text_textTokens)

text \<open>
  C4. In the message \<open>NewTransaction\<close> builds, for the payment and for the identity
  variant and for all field values, the children of the root are \<open>createDateTimestamp\<close>,
  \<open>Issuer\<close>, \<open>Merchant\<close>, \<open>Transaction\<close> in this order: the one \<open>Issuer\<close> block is the
  child of index 1, the one \<open>Merchant\<close> block the child of index 2, so the Issuer block
  comes strictly before the Merchant block in document order.
\<close>

theorem NewTransaction_Issuer_before_Merchant:
  "(\<exists>t. IDealClient_NewTransaction w c issuer purchaseID amount description entranceCode = Inr t
      \<and> childTags (IDealTransaction.msg t) =
          [''createDateTimestamp'', ''Issuer'', ''Merchant'', ''Transaction'']
      \<and> FindElements (IDealTransaction.msg t) [] ''/Issuer'' = [[1]]
      \<and> FindElements (IDealTransaction.msg t) [] ''/Merchant'' = [[2]])
   \<and> (\<exists>t. IDINClient_NewTransaction w c issuer entranceCode ident attributes = Inr t
      \<and> childTags (IDINTransaction.msg t) =
          [''createDateTimestamp'', ''Issuer'', ''Merchant'', ''Transaction'']
      \<and> FindElements (IDINTransaction.msg t) [] ''/Issuer'' = [[1]]
      \<and> FindElements (IDINTransaction.msg t) [] ''/Merchant'' = [[2]])"
  by (simp add: IDealClient_NewTransaction_tree IDINClient_NewTransaction_tree
        IDealTransaction.make_def idealTrxTree_def idinTrxTree_def childTags_def leaf_def
        find_defs)

text \<open>
  C2, as the claim states it, fails: with the bitmask zero and the identifier empty the
  identity variant's \<open>NewTransaction\<close> reports no error. It returns a transaction whose
  authentication request carries the index \<open>0\<close> and the empty \<open>ID\<close>.
\<close>

theorem IDIN_NewTransaction_zero_bitmask_accepted:
  "\<not> isl (IDINClient_NewTransaction offlineWorld exampleClient ''INGBNL2A'' ''entrance'' [] 0)
   \<and> attrsAt (IDINTransaction.msg (projr (IDINClient_NewTransaction offlineWorld exampleClient
                ''INGBNL2A'' ''entrance'' [] 0)))
        ''/Transaction/container/AuthnRequest'' ''AttributeConsumingServiceIndex'' = [''0'']
   \<and> attrsAt (IDINTransaction.msg (projr (IDINClient_NewTransaction offlineWorld exampleClient
                ''INGBNL2A'' ''entrance'' [] 0)))
        ''/Transaction/container/AuthnRequest'' ''ID'' = [[]]"
  by (simp add: IDINClient_NewTransaction_tree idinTrxTree_def attrsAt_def leaf_def find_defs
        SelectAttrValue_def Itoa_def digitChar_def)

text \<open>
  C2, amended. The identity variant's \<open>NewTransaction\<close> validates nothing: for every
  bitmask and every identifier, zero and empty included, it returns a transaction, whose
  one authentication request carries the identifier as given in \<open>ID\<close> and the bitmask in
  decimal in \<open>AttributeConsumingServiceIndex\<close>. The transport and the parser have no part
  in the result: building the message is local.
\<close>

theorem IDIN_NewTransaction_no_validation:
  "\<exists>t. IDINClient_NewTransaction w c issuer entranceCode ident attributes = Inr t
     \<and> attrsAt (IDINTransaction.msg t) ''/Transaction/container/AuthnRequest'' ''ID'' = [ident]
     \<and> attrsAt (IDINTransaction.msg t) ''/Transaction/container/AuthnRequest''
          ''AttributeConsumingServiceIndex'' = [Itoa (sint attributes)]
     \<and> IDINClient_NewTransaction (w\<lparr>NewRequest := nr, Do := d, ReadFrom := rf\<rparr>) c issuer
          entranceCode ident attributes = Inr t"
  by (simp add: IDINClient_NewTransaction_tree idinTrxTree_def attrsAt_def leaf_def find_defs
        SelectAttrValue_def)

subsection \<open>Whole calls on the concrete collaborators\<close>

lemma signMessage_bankWorld: "signMessage (bankWorld doc v dec) exampleClient m = Inr (xml_Header @ ''<signed/>'')"
  by (simp add: signMessage_def signMessage_tree_def bankWorld_def exampleClient_def signedStub_def node_def textEl_def
      etree_defs RemoveChild_def childElementTokens_def)

lemma request_bankWorld: "CommonClient_request (bankWorld doc v dec) exampleClient s = Inr doc"
  by (simp add: CommonClient_request_def bankWorld_def)

lemma validate_bankWorld: "validateMessage (bankWorld d v dec) exampleClient (document r) = Inr v"
  by (simp add: validateMessage_def document_def ChildElements_def bankWorld_def)

lemma envelopeCheck_other:
  "Tag r \<noteq> ''AcquirerErrorRes'' \<Longrightarrow> envelopeCheck (Inr (document r)) = Inr (document r)"
  by (simp add: envelopeCheck_def document_def ChildElements_def)

lemma exchange_idealWorld: "IDealClient_exchange (idealWorld tid st) exampleClient m = Inr (statusRes tid st)"
  by (simp add: IDealClient_exchange_def idealWorld_def signMessage_bankWorld IDealClient_request_def
       request_bankWorld envelopeCheck_other validate_bankWorld statusRes_def)


lemma FindText_statusRes:
  "FindText (statusRes tid st) [] ''/Transaction/transactionID'' = Inr tid"
  "FindText (statusRes tid st) [] ''/Transaction/status'' = Inr st"
  "FindText (statusRes tid st) [] ''/Transaction/consumerName'' = Inr ''J. Jansen''"
  "FindText (statusRes tid st) [] ''/Transaction/consumerIBAN'' = Inr ''NL44RABO0123456789''"
  "FindText (statusRes tid st) [] ''/Transaction/consumerBIC'' = Inr ''RABONL2U''"
  "FindText (statusRes tid st) [] ''/Transaction/amount'' = Inr ''1.00''"
  "FindText (statusRes tid st) [] ''/Transaction/currency'' = Inr ''EUR''"
  by (simp_all add: statusRes_def textEl_def node_def FindText_def FindElement_def find_defs Text_def)



subsection \<open>Interpreting status responses\<close>








text \<open>
  C7. For a validated payment-variant status response that echoes the requested
  identifier: with status text Success, and the five payload elements at their fixed
  paths, the result has status \<open>Success\<close> and exactly their five texts; with one of the
  other four known status texts, the result has that status and five empty payload
  fields.
\<close>

theorem IDeal_TransactionStatus_payload:
  assumes "IDealClient_exchange w c (statusRequest (IDealClient_createMessage w c ''AcquirerStatusReq'') trxid) = Inr response"
    and "FindText response [] ''/Transaction/transactionID'' = Inr trxid"
    and "FindText response [] ''/Transaction/status'' = Inr s"
  shows "(s = ''Success''
           \<and> FindText response [] ''/Transaction/consumerName'' = Inr name
           \<and> FindText response [] ''/Transaction/consumerIBAN'' = Inr iban
           \<and> FindText response [] ''/Transaction/consumerBIC'' = Inr bic
           \<and> FindText response [] ''/Transaction/amount'' = Inr amount
           \<and> FindText response [] ''/Transaction/currency'' = Inr currency
          \<longrightarrow> IDealClient_TransactionStatus w c trxid =
                Inr (IDealTransactionStatus.make Success name iban bic amount currency))
       \<and> (s \<in> {''Cancelled'', ''Expired'', ''Failure'', ''Open''}
          \<longrightarrow> (\<exists>st. IDealClient_TransactionStatus w c trxid =
                       Inr (IDealTransactionStatus.make st [] [] [] [] [])
                     \<and> String st = s \<and> st \<noteq> Success \<and> st \<noteq> InvalidStatus))"
  using assms
  by (auto simp add: IDealClient_TransactionStatus_def IDealClient_interpretStatus_def idealStatus_def
        IDealTransactionStatus.make_def)

text \<open>A Success response with its payload, and an Open response with the same elements.\<close>

theorem IDeal_TransactionStatus_payload_witness:
  "IDealClient_TransactionStatus (idealWorld ''TX1'' ''Success'') exampleClient ''TX1'' =
     Inr (IDealTransactionStatus.make Success ''J. Jansen'' ''NL44RABO0123456789'' ''RABONL2U'' ''1.00'' ''EUR'')
   \<and> IDealClient_TransactionStatus (idealWorld ''TX1'' ''Open'') exampleClient ''TX1'' =
     Inr (IDealTransactionStatus.make Open [] [] [] [] [])"
proof -
  have a: "IDealClient_TransactionStatus (idealWorld ''TX1'' ''Success'') exampleClient ''TX1'' =
     Inr (IDealTransactionStatus.make Success ''J. Jansen'' ''NL44RABO0123456789'' ''RABONL2U'' ''1.00'' ''EUR'')"
    using IDeal_TransactionStatus_payload [of "idealWorld ''TX1'' ''Success''" exampleClient "''TX1''" "statusRes ''TX1'' ''Success''"
                "''Success''" "''J. Jansen''" "''NL44RABO0123456789''" "''RABONL2U''" "''1.00''" "''EUR''"]
    by (simp add: exchange_idealWorld FindText_statusRes)
  obtain st where b: "IDealClient_TransactionStatus (idealWorld ''TX1'' ''Open'') exampleClient ''TX1'' =
       Inr (IDealTransactionStatus.make st [] [] [] [] [])" and c: "String st = ''Open''"
    using IDeal_TransactionStatus_payload [of "idealWorld ''TX1'' ''Open''" exampleClient "''TX1''" "statusRes ''TX1'' ''Open''" "''Open''"]
    by (auto simp add: exchange_idealWorld FindText_statusRes)
  from c have "st = Open" by (cases st) simp_all
  with a b show ?thesis by simp
qed

subsection \<open>Error envelopes\<close>

lemma signMessage_Validate: "signMessage (w\<lparr>Validate := v\<rparr>) c m = signMessage w c m"
  by (simp add: signMessage_def signMessage_tree_def cong: sum.case_cong list.case_cong option.case_cong)

lemma request_Validate: "CommonClient_request (w\<lparr>Validate := v\<rparr>) c s = CommonClient_request w c s"
  by (simp add: CommonClient_request_def cong: sum.case_cong option.case_cong if_cong)

text \<open>
  C5. When the document received has the root tag \<open>AcquirerErrorRes\<close> (the tag of its
  first child element), and \<open>errorCode\<close>, \<open>errorMessage\<close>, \<open>errorDetail\<close> and
  \<open>consumerMessage\<close> are read at their fixed paths, then \<open>request\<close>, in both
  variants, returns the \<open>AcquirerError\<close> with exactly these four texts and no document.
  The exchange of a call returns this error whatever the validator is: the envelope is
  detected before the signature of the document is validated, and the validator has no
  part in the result.
\<close>

theorem error_envelope_before_validation:
  assumes "CommonClient_request w c s = Inr doc"
    and "ChildElements doc [] = p # ps"
    and "getAt doc p = Some first"
    and "Tag first = ''AcquirerErrorRes''"
    and "FindText doc [] ''/AcquirerErrorRes/Error/errorCode'' = Inr code"
    and "FindText doc [] ''/AcquirerErrorRes/Error/errorMessage'' = Inr message"
    and "FindText doc [] ''/AcquirerErrorRes/Error/errorDetail'' = Inr detail"
    and "FindText doc [] ''/AcquirerErrorRes/Error/consumerMessage'' = Inr consumer"
  shows "IDealClient_request w c s =
           Inl (AcquirerErr \<lparr>ErrorCode = code, ErrorMessage = message, ErrorDetail = detail,
                             ConsumerMessage = consumer\<rparr>)
       \<and> IDINClient_request w c s =
           Inl (AcquirerErr \<lparr>ErrorCode = code, ErrorMessage = message, ErrorDetail = detail,
                             ConsumerMessage = consumer\<rparr>)
       \<and> (signMessage w c m = Inr s \<longrightarrow>
            IDealClient_exchange (w\<lparr>Validate := v\<rparr>) c m =
              Inl (AcquirerErr \<lparr>ErrorCode = code, ErrorMessage = message, ErrorDetail = detail,
                                ConsumerMessage = consumer\<rparr>)
          \<and> IDINClient_exchange (w\<lparr>Validate := v\<rparr>) c m =
              Inl (AcquirerErr \<lparr>ErrorCode = code, ErrorMessage = message, ErrorDetail = detail,
                                ConsumerMessage = consumer\<rparr>))"
proof -
  have env: "envelopeCheck (Inr doc) =
      Inl (AcquirerErr \<lparr>ErrorCode = code, ErrorMessage = message, ErrorDetail = detail,
                        ConsumerMessage = consumer\<rparr>)"
    using assms(2-8) by (simp add: envelopeCheck_def acquirerError_def)
  with assms(1) show ?thesis
    by (simp add: IDealClient_request_def IDINClient_request_def IDealClient_exchange_def
          IDINClient_exchange_def signMessage_Validate request_Validate)
qed

lemma errorRes_fields:
  "ChildElements (document errorRes) [] = [[0]]"
  "getAt (document errorRes) [0] = Some errorRes"
  "Tag errorRes = ''AcquirerErrorRes''"
  "FindText (document errorRes) [] ''/AcquirerErrorRes/Error/errorCode'' = Inr ''SO1000''"
  "FindText (document errorRes) [] ''/AcquirerErrorRes/Error/errorMessage'' = Inr ''System error''"
  "FindText (document errorRes) [] ''/AcquirerErrorRes/Error/errorDetail'' = Inr ''...''"
  "FindText (document errorRes) [] ''/AcquirerErrorRes/Error/consumerMessage'' = Inr ''Something went wrong''"
  by (simp_all add: errorRes_def document_def ChildElements_def textEl_def node_def FindText_def
        FindElement_def find_defs Text_def)

text \<open>
  The envelope with \<open>SO1000\<close>, \<open>System error\<close>, \<open>...\<close>, \<open>Something went wrong\<close>, and a
  validator that would reject every document.
\<close>

theorem error_envelope_before_validation_witness:
  "CommonClient_request errorWorld exampleClient (xml_Header @ ''<signed/>'') = Inr (document errorRes)
   \<and> signMessage errorWorld exampleClient (IDealClient_createMessage errorWorld exampleClient ''DirectoryReq'')
        = Inr (xml_Header @ ''<signed/>'')
   \<and> IDealClient_request errorWorld exampleClient (xml_Header @ ''<signed/>'') =
        Inl (AcquirerErr \<lparr>ErrorCode = ''SO1000'', ErrorMessage = ''System error'', ErrorDetail = ''...'',
                          ConsumerMessage = ''Something went wrong''\<rparr>)
   \<and> IDINClient_request errorWorld exampleClient (xml_Header @ ''<signed/>'') =
        Inl (AcquirerErr \<lparr>ErrorCode = ''SO1000'', ErrorMessage = ''System error'', ErrorDetail = ''...'',
                          ConsumerMessage = ''Something went wrong''\<rparr>)
   \<and> IDealClient_exchange (errorWorld\<lparr>Validate := (\<lambda>cert e. Inl ''signature does not match'')\<rparr>) exampleClient
        (IDealClient_createMessage errorWorld exampleClient ''DirectoryReq'') =
        Inl (AcquirerErr \<lparr>ErrorCode = ''SO1000'', ErrorMessage = ''System error'', ErrorDetail = ''...'',
                          ConsumerMessage = ''Something went wrong''\<rparr>)
   \<and> IDINClient_exchange (errorWorld\<lparr>Validate := (\<lambda>cert e. Inl ''signature does not match'')\<rparr>) exampleClient
        (IDealClient_createMessage errorWorld exampleClient ''DirectoryReq'') =
        Inl (AcquirerErr \<lparr>ErrorCode = ''SO1000'', ErrorMessage = ''System error'', ErrorDetail = ''...'',
                          ConsumerMessage = ''Something went wrong''\<rparr>)"
proof -
  have r: "CommonClient_request errorWorld exampleClient (xml_Header @ ''<signed/>'') = Inr (document errorRes)"
    by (simp add: errorWorld_def request_bankWorld)
  have sg: "signMessage errorWorld exampleClient (IDealClient_createMessage errorWorld exampleClient ''DirectoryReq'')
        = Inr (xml_Header @ ''<signed/>'')"
    by (simp add: errorWorld_def signMessage_bankWorld)
  show ?thesis
    using error_envelope_before_validation [OF r errorRes_fields(1) errorRes_fields(2) errorRes_fields(3) errorRes_fields(4)
                errorRes_fields(5) errorRes_fields(6) errorRes_fields(7),
              where m = "IDealClient_createMessage errorWorld exampleClient ''DirectoryReq''"
                and v = "\<lambda>cert e. Inl ''signature does not match''"]
          r sg by simp
qed


subsection \<open>Decrypting attributes\<close>





subsection \<open>Signing\<close>


































subsection \<open>The directory\<close>

text \<open>An absolute path selects the same elements whatever element it is applied to.\<close>

lemma FindElements_absolute:
  "FindElements root p (CHR ''/'' # path) = FindElements root [] (CHR ''/'' # path)"
  by (simp add: FindElements_def compilePath_def)

text \<open>
  C1. On the response with the countries Netherlands (issuers INGBNL2A ING, RABONL2U
  Rabobank) and Belgium (issuer GEBABEBB BNP), \<open>parseDirectoryRequest\<close> returns a
  directory with the one key Netherlands, holding six times the issuer INGBNL2A ING, and
  no key Belgium. The paths applied to each country element and to each issuer element
  are absolute: for every country they select the first country's name and the issuers
  of all countries, and for every issuer the first issuer's identifier and name.
\<close>

theorem parseDirectoryRequest_two_countries:
  "FindElements directoryRes [] ''/Directory/Country'' = [[2, 1], [2, 2]]
   \<and> \<not> isl (parseDirectoryRequest directoryRes)
   \<and> Issuers (projr (parseDirectoryRequest directoryRes)) ''Netherlands'' =
       Some [\<lparr>IssuerID = ''INGBNL2A'', IssuerName = ''ING''\<rparr>,
             \<lparr>IssuerID = ''INGBNL2A'', IssuerName = ''ING''\<rparr>,
             \<lparr>IssuerID = ''INGBNL2A'', IssuerName = ''ING''\<rparr>,
             \<lparr>IssuerID = ''INGBNL2A'', IssuerName = ''ING''\<rparr>,
             \<lparr>IssuerID = ''INGBNL2A'', IssuerName = ''ING''\<rparr>,
             \<lparr>IssuerID = ''INGBNL2A'', IssuerName = ''ING''\<rparr>]
   \<and> Issuers (projr (parseDirectoryRequest directoryRes)) ''Belgium'' = None"
  by (simp add: parseDirectoryRequest_def directoryRes_def node_def textEl_def FindText_def
        FindElement_def find_defs Text_def appendIssuer_def)

end
